theory Spec2Isabelle
  imports Main "HOL-Library.Char_ord"
begin

section \<open>The account store of flask\_backend/account\_sql.py\<close>

text \<open>
  The module keeps one SQLite table, \<open>account\<close>, and offers the operations of class
  \<open>AccountSQL\<close> on it. The embedding follows the source function by function. Python
  strings that the store only compares and hashes are \<open>string\<close>s; the secret that
  \<open>verify_password\<close> matches against its pattern is a list of Unicode code points.
\<close>

subsection \<open>utils/exceptions.py and the built-in exceptions that can escape\<close>

datatype error =
    DuplicateValueError
  | PasswordError
  | AccountError
  | TimeSetError
  | ValueError    \<comment> \<open>raised by \<open>datetime.strptime\<close> on a string that does not fit the format\<close>
  | TypeError     \<comment> \<open>raised by subscripting \<open>None\<close>\<close>

subsection \<open>What the standard library computes\<close>

text \<open>
  \<open>datetime.strptime\<close>, \<open>datetime.now\<close>, \<open>hashlib.sha256\<close> and SQLite's cast of a TEXT
  operand of \<open>AND\<close> to a truth value are not code of this module: they are taken as
  parameters. A naive \<open>datetime\<close> is a point on a discrete time line, here a \<open>nat\<close>.
\<close>

type_synonym datetime = nat

record library =
  strptime :: "string \<Rightarrow> datetime option"
    \<comment> \<open>\<open>datetime.strptime(s, "%Y-%m-%d %H:%M:%S")\<close>; \<open>None\<close> is the \<open>ValueError\<close>\<close>
  now :: datetime
    \<comment> \<open>\<open>datetime.now()\<close>\<close>
  sha256_hexdigest :: "string \<Rightarrow> string"
    \<comment> \<open>\<open>hashlib.sha256\<close> of the UTF-8 encoding, as lower-case hex\<close>
  sqlite_true :: "string \<Rightarrow> bool"
    \<comment> \<open>whether SQLite takes a TEXT value for true when it is an operand of \<open>AND\<close>\<close>

subsection \<open>verify\_time\<close>

definition verify_time :: "library \<Rightarrow> string \<Rightarrow> string \<Rightarrow> error + (bool \<times> bool)" where
  "verify_time L start_time end_time =
     (case strptime L start_time of
        None \<Rightarrow> Inl ValueError
      | Some s \<Rightarrow>
          (case strptime L end_time of
             None \<Rightarrow> Inl ValueError
           | Some e \<Rightarrow> Inr (e > s, e > now L \<and> now L > s)))"

subsection \<open>verify\_password: the pattern and Python's matching of it\<close>

text \<open>
  The argument of \<open>verify_password\<close> is a Python \<open>str\<close>: a sequence of Unicode code
  points, here a list of \<open>nat\<close>. In a \<open>str\<close> pattern the class \<open>\d\<close> holds every
  Unicode decimal digit: the ten ASCII digits and further code points, all of them
  above 127, that the Unicode database lists. That list is not code of this module;
  it is the parameter \<open>nd\<close>, read above 127 only.
\<close>

type_synonym codepoints = "nat list"

definition py_str :: "string \<Rightarrow> codepoints" where
  \<comment> \<open>the code points of an ASCII literal\<close>
  "py_str s = map of_char s"

text \<open>
  The fragment of Python's regular expressions that the pattern uses: the anchors
  \<open>^\<close> and \<open>$\<close> (without MULTILINE), one character of a class, a class repeated at least
  \<open>n\<close> times (\<open>.*\<close> is the class \<open>.\<close> repeated at least 0 times), the positive lookahead
  \<open>(?=...)\<close> and concatenation.
\<close>

datatype regex =
    Bol
  | Eol
  | Cls "nat \<Rightarrow> bool"
  | AtLeast nat "nat \<Rightarrow> bool"
  | Look regex
  | Cat regex regex

text \<open>
  \<open>ends r s i\<close> lists every position at which a match of \<open>r\<close> that starts at position
  \<open>i\<close> of \<open>s\<close> can end. \<open>$\<close> matches at the end of the string and also just before a
  line feed (code point 10) that is the last character.
\<close>

fun ends :: "regex \<Rightarrow> codepoints \<Rightarrow> nat \<Rightarrow> nat list" where
  "ends Bol s i = (if i = 0 then [i] else [])"
| "ends Eol s i =
     (if i = length s \<or> (Suc i = length s \<and> s ! i = 10) then [i] else [])"
| "ends (Cls p) s i = (if i < length s \<and> p (s ! i) then [Suc i] else [])"
| "ends (AtLeast n p) s i =
     map (\<lambda>k. i + k) [n ..< Suc (length (takeWhile p (drop i s)))]"
| "ends (Look r) s i = (if ends r s i = [] then [] else [i])"
| "ends (Cat a b) s i = concat (map (ends b s) (ends a s i))"

definition re_match :: "regex \<Rightarrow> codepoints \<Rightarrow> bool" where
  \<comment> \<open>\<open>re.match\<close> tries position 0 only; the result read as a truth value\<close>
  "re_match r s = (ends r s 0 \<noteq> [])"

definition dot :: "nat \<Rightarrow> bool" where
  \<comment> \<open>\<open>.\<close> without DOTALL: every character but the line feed\<close>
  "dot c = (c \<noteq> 10)"

definition digit :: "(nat \<Rightarrow> bool) \<Rightarrow> nat \<Rightarrow> bool" where
  \<comment> \<open>\<open>\d\<close>: \<open>0\<close> to \<open>9\<close>, or a decimal digit beyond ASCII\<close>
  "digit nd c = ((48 \<le> c \<and> c \<le> 57) \<or> (127 < c \<and> nd c))"

definition lower :: "nat \<Rightarrow> bool" where
  \<comment> \<open>\<open>[a-z]\<close>\<close>
  "lower c = (97 \<le> c \<and> c \<le> 122)"

definition upper :: "nat \<Rightarrow> bool" where
  \<comment> \<open>\<open>[A-Z]\<close>\<close>
  "upper c = (65 \<le> c \<and> c \<le> 90)"

definition symbol :: "nat \<Rightarrow> bool" where
  \<comment> \<open>\<open>[!@#$%^&*()_+]\<close>\<close>
  "symbol c = (c \<in> set (py_str ''!@#$%^&*()_+''))"

definition allowed :: "(nat \<Rightarrow> bool) \<Rightarrow> nat \<Rightarrow> bool" where
  \<comment> \<open>the class \<open>[a-zA-Z\d!@#$%^&*()_+]\<close>\<close>
  "allowed nd c = (lower c \<or> upper c \<or> digit nd c \<or> symbol c)"

definition pattern :: "(nat \<Rightarrow> bool) \<Rightarrow> regex" where
  "pattern nd =
     Cat Bol
    (Cat (Look (Cat (AtLeast 0 dot) (Cls (digit nd))))
    (Cat (Look (Cat (AtLeast 0 dot) (Cls lower)))
    (Cat (Look (Cat (AtLeast 0 dot) (Cls upper)))
    (Cat (Look (Cat (AtLeast 0 dot) (Cls symbol)))
    (Cat (AtLeast 8 (allowed nd)) Eol)))))"

definition verify_password :: "(nat \<Rightarrow> bool) \<Rightarrow> codepoints \<Rightarrow> bool" where
  "verify_password nd password = (if re_match (pattern nd) password then True else False)"

text \<open>
  The password format in the words of the specification: at least 8 characters, with a
  digit, a lower-case letter, an upper-case letter and a symbol of the fixed set. It is
  compared with \<open>verify_password\<close> below.
\<close>

definition strong_secret :: "(nat \<Rightarrow> bool) \<Rightarrow> codepoints \<Rightarrow> bool" where
  "strong_secret nd s =
     (8 \<le> length s \<and> list_ex (digit nd) s \<and> list_ex lower s \<and> list_ex upper s \<and>
      list_ex symbol s)"

text \<open>
  For the examples: the decimal digits beyond ASCII that they use, ARABIC-INDIC DIGIT
  ZERO to NINE (U+0660 to U+0669). The Unicode database lists more.
\<close>

definition example_nd :: "nat \<Rightarrow> bool" where
  "example_nd c = (1632 \<le> c \<and> c \<le> 1641)"

subsection \<open>get\_hex\_sha\<close>

definition get_hex_sha :: "library \<Rightarrow> string \<Rightarrow> string" where
  "get_hex_sha L a_string = sha256_hexdigest L a_string"

subsection \<open>The table and the SQL statements the module issues\<close>

text \<open>
  A row of \<open>account\<close> in column order. Each text column has TEXT affinity, so every
  stored value is a string. The table lists its rows in rowid order, which is the order
  in which an unindexed \<open>SELECT\<close> visits them, and keeps the counter that
  \<open>AUTOINCREMENT\<close> maintains (SQLite's limit of $2^{63}-1$ on rowids is not modelled).
\<close>

record row =
  user_id :: nat
  username :: string
  password :: string
  role :: string
  start_time :: string
  end_time :: string

record table =
  rows :: "row list"
  sequence :: nat

type_synonym account = "string \<times> string \<times> string \<times> string \<times> string"

definition select_where :: "(row \<Rightarrow> bool) \<Rightarrow> table \<Rightarrow> row list \<times> table" where
  \<comment> \<open>\<open>SELECT * FROM account WHERE ...\<close>: the rows found, and the table as it was\<close>
  "select_where P t = (filter P (rows t), t)"

definition fetchone :: "row list \<Rightarrow> row option" where
  "fetchone rs = (case rs of [] \<Rightarrow> None | r # _ \<Rightarrow> Some r)"

definition new_rowid :: "table \<Rightarrow> nat" where
  "new_rowid t = Suc (max (sequence t) (fold max (map user_id (rows t)) 0))"

definition insert_account :: "account \<Rightarrow> table \<Rightarrow> table" where
  \<comment> \<open>\<open>INSERT INTO account (username, password, role, start_time, end_time) VALUES ...\<close>\<close>
  "insert_account v t =
     (case v of (u, p, r, s, e) \<Rightarrow>
        let i = new_rowid t
        in \<lparr>rows = rows t @
                  [\<lparr>user_id = i, username = u, password = p, role = r,
                    start_time = s, end_time = e\<rparr>],
            sequence = i\<rparr>)"

definition update_where :: "(row \<Rightarrow> bool) \<Rightarrow> (row \<Rightarrow> row) \<Rightarrow> table \<Rightarrow> table" where
  \<comment> \<open>\<open>UPDATE account SET ... WHERE ...\<close>\<close>
  "update_where P f t = t\<lparr>rows := map (\<lambda>r. if P r then f r else r) (rows t)\<rparr>"

definition commit :: "table \<Rightarrow> table" where
  \<comment> \<open>every method that writes commits before it returns and every \<open>raise\<close> comes before
      the first write, so one table stands for both the connection's view and the file\<close>
  "commit t = t"

definition sql_text_of_bool :: "bool \<Rightarrow> string" where
  \<comment> \<open>the integer 0 or 1 that \<open>AND\<close> yields, stored in a column of TEXT affinity\<close>
  "sql_text_of_bool b = (if b then ''1'' else ''0'')"

subsection \<open>class AccountSQL\<close>

definition create_table_if_not_exits :: "table option \<Rightarrow> table" where
  \<comment> \<open>\<open>CREATE TABLE IF NOT EXISTS account\<close>; \<open>None\<close> is a database without the table\<close>
  "create_table_if_not_exits db =
     (case db of None \<Rightarrow> \<lparr>rows = [], sequence = 0\<rparr> | Some t \<Rightarrow> t)"

definition init_admin_if_not_exits :: "library \<Rightarrow> string \<Rightarrow> table \<Rightarrow> table" where
  \<comment> \<open>\<open>admin_pwd\<close> is the key that \<open>generate_key(15)\<close> draws\<close>
  "init_admin_if_not_exits L admin_pwd t =
     (case select_where (\<lambda>r. role r = ''admin'') t of
        (found, t1) \<Rightarrow>
          if length found = 0
          then commit (insert_account
                 (''admin'', get_hex_sha L admin_pwd, ''admin'',
                  ''2023-01-01 00:00:00'', ''2030-01-01 00:00:00'') t1)
          else t1)"

definition AccountSQL_init :: "library \<Rightarrow> string \<Rightarrow> table option \<Rightarrow> table" where
  "AccountSQL_init L admin_pwd db =
     init_admin_if_not_exits L admin_pwd (create_table_if_not_exits db)"

definition check_username_exits :: "string \<Rightarrow> table \<Rightarrow> bool \<times> table" where
  "check_username_exits u t =
     (case select_where (\<lambda>r. username r = u) t of
        (found, t1) \<Rightarrow> (if length found \<noteq> 0 then True else False, t1))"

text \<open>The first loop of \<open>create_accounts\<close>: its body for one tuple, then the loop.\<close>

definition check_account :: "library \<Rightarrow> account \<Rightarrow> table \<Rightarrow> error option \<times> table" where
  "check_account L a t =
     (case a of (u, p, r, s, e) \<Rightarrow>
        (case check_username_exits u t of
           (ex, t1) \<Rightarrow>
             if ex then (Some DuplicateValueError, t1)
             else (case verify_time L s e of
                     Inl err \<Rightarrow> (Some err, t1)
                   | Inr (ok, _) \<Rightarrow>
                       if \<not> ok then (Some TimeSetError, t1) else (None, t1))))"

fun check_accounts :: "library \<Rightarrow> account list \<Rightarrow> table \<Rightarrow> error option \<times> table" where
  "check_accounts L [] t = (None, t)"
| "check_accounts L (a # as) t =
     (case check_account L a t of
        (Some err, t1) \<Rightarrow> (Some err, t1)
      | (None, t1) \<Rightarrow> check_accounts L as t1)"

text \<open>The second loop: one \<open>INSERT\<close> for each tuple, with the secret hashed.\<close>

fun insert_accounts :: "library \<Rightarrow> account list \<Rightarrow> table \<Rightarrow> table" where
  "insert_accounts L [] t = t"
| "insert_accounts L ((u, p, r, s, e) # as) t =
     insert_accounts L as (insert_account (u, get_hex_sha L p, r, s, e) t)"

definition create_accounts :: "library \<Rightarrow> account list \<Rightarrow> table \<Rightarrow> (error + unit) \<times> table" where
  "create_accounts L account_list t =
     (case check_accounts L account_list t of
        (Some err, t1) \<Rightarrow> (Inl err, t1)
      | (None, t1) \<Rightarrow> (Inr (), commit (insert_accounts L account_list t1)))"

definition username_get_base_info ::
  "string \<Rightarrow> table \<Rightarrow> (error + (nat \<times> string \<times> string \<times> string)) \<times> table" where
  \<comment> \<open>of the row \<open>item\<close>, \<open>item[0]\<close> is user\_id, \<open>item[1]\<close> username, \<open>item[3]\<close> role
      and \<open>item[4]\<close> start\_time\<close>
  "username_get_base_info u t =
     (case select_where (\<lambda>r. username r = u) t of
        (found, t1) \<Rightarrow>
          (case fetchone found of
             None \<Rightarrow> (Inl TypeError, t1)
           | Some item \<Rightarrow>
               (Inr (user_id item, username item, role item, start_time item), t1)))"

definition verify_account ::
  "library \<Rightarrow> string \<Rightarrow> string \<Rightarrow> table \<Rightarrow> (error + row) \<times> table" where
  "verify_account L u pwd t =
     (let h = get_hex_sha L pwd
      in case select_where (\<lambda>r. username r = u \<and> password r = h) t of
           (found, t1) \<Rightarrow>
             (case fetchone found of
                Some full_export \<Rightarrow> (Inr full_export, t1)
              | None \<Rightarrow>
                  (case select_where (\<lambda>r. username r = u) t1 of
                     (found', t2) \<Rightarrow>
                       (case fetchone found' of
                          Some username_export \<Rightarrow> (Inl PasswordError, t2)
                        | None \<Rightarrow> (Inl AccountError, t2)))))"

definition caught :: error where
  \<comment> \<open>the value of \<open>AccountError or PasswordError\<close> in the \<open>except\<close> clause: a class is
      true, so \<open>or\<close> yields its first operand\<close>
  "caught = AccountError"

definition change_password ::
  "library \<Rightarrow> string \<Rightarrow> string \<Rightarrow> string \<Rightarrow> table \<Rightarrow> (error + bool) \<times> table" where
  "change_password L u old_pwd new_pwd t =
     (case verify_account L u old_pwd t of
        (Inl err, t1) \<Rightarrow> if err = caught then (Inr False, t1) else (Inl err, t1)
      | (Inr _, t1) \<Rightarrow>
          (Inr True,
           commit (update_where (\<lambda>r. username r = u)
                     (\<lambda>r. r\<lparr>password := get_hex_sha L new_pwd\<rparr>) t1)))"

text \<open>
  The statement of \<open>update_allow_time\<close> is
  \<open>UPDATE account SET start_time = ? and end_time = ? WHERE username = ?\<close>. SQL reads
  its one assignment as \<open>start_time = (? AND (end_time = ?))\<close>: the new start\_time is the
  truth value of ``the first parameter is true and the row's end\_time equals the second
  parameter'', and end\_time is not assigned.
\<close>

definition update_allow_time ::
  "library \<Rightarrow> string \<Rightarrow> string \<Rightarrow> string \<Rightarrow> table \<Rightarrow> (error + unit) \<times> table" where
  "update_allow_time L u s e t =
     (case check_username_exits u t of
        (ex, t1) \<Rightarrow>
          if ex then
            (case verify_time L s e of
               Inl err \<Rightarrow> (Inl err, t1)
             | Inr (ok, _) \<Rightarrow>
                 if ok then
                   (Inr (),
                    commit (update_where (\<lambda>r. username r = u)
                      (\<lambda>r. r\<lparr>start_time :=
                              sql_text_of_bool (sqlite_true L s \<and> end_time r = e)\<rparr>) t1))
                 else (Inl TimeSetError, t1))
          else (Inl AccountError, t1))"

subsection \<open>A library and a table for the examples\<close>

text \<open>
  The values of the standard library on the strings that the examples use: timestamps
  as the number \<open>YYYYMMDDhhmmss\<close>, and SHA-256 digests. SQLite casts a text to a number
  by its longest numeric prefix; for a text that starts with a run of digits followed by
  \<open>-\<close>, as every timestamp does, it is true iff that run has a digit other than 0.
\<close>

definition example_library :: library where
  "example_library =
     \<lparr>strptime = map_of
        [(''2023-01-01 00:00:00'', 20230101000000),
         (''2023-04-17 00:00:00'', 20230417000000),
         (''2023-05-17 00:00:00'', 20230517000000),
         (''2024-01-01 00:00:00'', 20240101000000),
         (''2025-01-01 00:00:00'', 20250101000000),
         (''2030-01-01 00:00:00'', 20300101000000)],
      now = 20230501120000,
      sha256_hexdigest = (\<lambda>s. case map_of
        [(''password'', ''5e884898da28047151d0e56f8dc6292773603d0d6aabbdd62a11ef721d1542d8''),
         (''wrong'', ''8810ad581e59f2bc3928b261707a71308f7e139eb04820366dc4d5c18d980225''),
         (''new_password'', ''00b9e6622317a2fb628d5514b866d4e7c52b5b149027825645ae3fd72827e84e''),
         (''X'', ''4b68ab3847feda7d6c62c1fbcbeebfa35eab7351ed5e78f4ddadea5df64b8015''),
         (''Y'', ''18f5384d58bcb1bba0bcd9e6a6781d1a6ac2cc280c330ecbab6cb7931b721552''),
         (''aB3!aB3!aB3!aB3'', ''5a14afac3b7cbc9ed9640d4a980dfb28708ce15945372a1210b758ed396d9584'')]
        s of Some d \<Rightarrow> d | None \<Rightarrow> []),
      sqlite_true = (\<lambda>s. list_ex (\<lambda>c. c \<noteq> CHR ''0'')
        (takeWhile (\<lambda>c. CHR ''0'' \<le> c \<and> c \<le> CHR ''9'') s))\<rparr>"

definition admin_row :: row where
  "admin_row =
     \<lparr>user_id = 1, username = ''admin'',
      password = ''5a14afac3b7cbc9ed9640d4a980dfb28708ce15945372a1210b758ed396d9584'',
      role = ''admin'', start_time = ''2023-01-01 00:00:00'',
      end_time = ''2030-01-01 00:00:00''\<rparr>"

definition student_row :: row where
  "student_row =
     \<lparr>user_id = 2, username = ''test_std'',
      password = ''5e884898da28047151d0e56f8dc6292773603d0d6aabbdd62a11ef721d1542d8'',
      role = ''student'', start_time = ''2023-04-17 00:00:00'',
      end_time = ''2023-05-17 00:00:00''\<rparr>"

definition example_table :: table where
  "example_table = \<lparr>rows = [admin_row, student_row], sequence = 2\<rparr>"

text \<open>
  Two batches for \<open>create_accounts\<close>: one whose second tuple repeats the username of
  the first, with the rows it yields on \<open>example_table\<close>; a batch whose second tuple has
  a window that ends before it starts; and a batch whose second tuple has a username
  that \<open>example_table\<close> stores.
\<close>

definition duplicate_batch :: "account list" where
  "duplicate_batch =
     [(''dup'', ''X'', ''student'', ''2023-04-17 00:00:00'', ''2023-05-17 00:00:00''),
      (''dup'', ''Y'', ''teacher'', ''2023-04-17 00:00:00'', ''2023-05-17 00:00:00'')]"

definition duplicate_rows :: "row list" where
  "duplicate_rows =
     [\<lparr>user_id = 3, username = ''dup'',
       password = ''4b68ab3847feda7d6c62c1fbcbeebfa35eab7351ed5e78f4ddadea5df64b8015'',
       role = ''student'', start_time = ''2023-04-17 00:00:00'',
       end_time = ''2023-05-17 00:00:00''\<rparr>,
      \<lparr>user_id = 4, username = ''dup'',
       password = ''18f5384d58bcb1bba0bcd9e6a6781d1a6ac2cc280c330ecbab6cb7931b721552'',
       role = ''teacher'', start_time = ''2023-04-17 00:00:00'',
       end_time = ''2023-05-17 00:00:00''\<rparr>]"

definition backwards_batch :: "account list" where
  "backwards_batch =
     [(''test_teacher'', ''password'', ''teacher'', ''2023-04-17 00:00:00'',
       ''2023-05-17 00:00:00''),
      (''late'', ''password'', ''student'', ''2023-05-17 00:00:00'',
       ''2023-04-17 00:00:00''),
      (''other'', ''password'', ''student'', ''2023-04-17 00:00:00'',
       ''2023-05-17 00:00:00'')]"

definition stored_name_batch :: "account list" where
  "stored_name_batch =
     [(''test_teacher'', ''password'', ''teacher'', ''2023-04-17 00:00:00'',
       ''2023-05-17 00:00:00''),
      (''test_std'', ''X'', ''student'', ''2023-04-17 00:00:00'', ''2023-05-17 00:00:00'')]"

section \<open>Properties\<close>

subsection \<open>The password format\<close>

lemma le_length_takeWhile:
  "k \<le> length (takeWhile p xs) \<longleftrightarrow> k \<le> length xs \<and> (\<forall>m<k. p (xs ! m))"
proof (induction xs arbitrary: k)
  case Nil
  then show ?case by auto
next
  case (Cons x xs)
  show ?case
  proof (cases k)
    case 0
    then show ?thesis by simp
  next
    case (Suc j)
    then show ?thesis
      using Cons.IH [of j] by (auto simp: less_Suc_eq_0_disj)
  qed
qed

lemma set_ends_AtLeast0:
  "j \<in> set (ends (AtLeast n p) s 0) \<longleftrightarrow> n \<le> j \<and> j \<le> length s \<and> (\<forall>m<j. p (s ! m))"
proof -
  have "j \<in> set (ends (AtLeast n p) s 0) \<longleftrightarrow> n \<le> j \<and> j \<le> length (takeWhile p s)"
    by auto
  then show ?thesis
    by (simp only: le_length_takeWhile)
qed

lemma ends_Eol_nonempty:
  "ends Eol s j \<noteq> [] \<longleftrightarrow> j = length s \<or> (Suc j = length s \<and> s ! j = 10)"
  by simp

lemma ends_Cls_nonempty:
  "ends (Cls p) s j \<noteq> [] \<longleftrightarrow> j < length s \<and> p (s ! j)"
  by simp

lemma ends_Cat_nonempty:
  "ends (Cat a b) s i \<noteq> [] \<longleftrightarrow> (\<exists>j\<in>set (ends a s i). ends b s j \<noteq> [])"
  by auto

lemma ends_Cat_Bol: "ends (Cat Bol r) s 0 = ends r s 0"
  by simp

lemma ends_Cat_Look:
  "ends (Cat (Look r) r') s i \<noteq> [] \<longleftrightarrow> ends r s i \<noteq> [] \<and> ends r' s i \<noteq> []"
  by simp

text \<open>A lookahead \<open>(?=.*c)\<close> at position 0 asks for a \<open>c\<close> before the first line feed.\<close>

lemma lookahead_iff:
  "ends (Cat (AtLeast 0 dot) (Cls p)) s 0 \<noteq> [] \<longleftrightarrow>
     (\<exists>k<length s. p (s ! k) \<and> (\<forall>m<k. dot (s ! m)))"
proof -
  have "ends (Cat (AtLeast 0 dot) (Cls p)) s 0 \<noteq> [] \<longleftrightarrow>
          (\<exists>k. (0 \<le> k \<and> k \<le> length s \<and> (\<forall>m<k. dot (s ! m))) \<and> k < length s \<and> p (s ! k))"
    by (simp only: ends_Cat_nonempty set_ends_AtLeast0 ends_Cls_nonempty Bex_def)
  also have "\<dots> \<longleftrightarrow> (\<exists>k<length s. p (s ! k) \<and> (\<forall>m<k. dot (s ! m)))"
    by (meson le0 less_imp_le_nat)
  finally show ?thesis .
qed

lemma body_iff:
  "ends (Cat (AtLeast 8 (allowed nd)) Eol) s 0 \<noteq> [] \<longleftrightarrow>
     (\<exists>k. 8 \<le> k \<and> k \<le> length s \<and> (\<forall>m<k. allowed nd (s ! m)) \<and>
          (k = length s \<or> (Suc k = length s \<and> s ! k = 10)))"
  by (simp only: ends_Cat_nonempty set_ends_AtLeast0 ends_Eol_nonempty Bex_def) blast

text \<open>What the pattern accepts, on every string.\<close>

lemma verify_password_iff:
  "verify_password nd s \<longleftrightarrow>
     (\<exists>k<length s. digit nd (s ! k) \<and> (\<forall>m<k. dot (s ! m))) \<and>
     (\<exists>k<length s. lower (s ! k) \<and> (\<forall>m<k. dot (s ! m))) \<and>
     (\<exists>k<length s. upper (s ! k) \<and> (\<forall>m<k. dot (s ! m))) \<and>
     (\<exists>k<length s. symbol (s ! k) \<and> (\<forall>m<k. dot (s ! m))) \<and>
     (\<exists>k. 8 \<le> k \<and> k \<le> length s \<and> (\<forall>m<k. allowed nd (s ! m)) \<and>
          (k = length s \<or> (Suc k = length s \<and> s ! k = 10)))"
  by (simp only: verify_password_def re_match_def pattern_def ends_Cat_Bol ends_Cat_Look
      lookahead_iff body_iff if_bool_eq_conj simp_thms)

lemma allowed_dot: "allowed nd c \<Longrightarrow> dot c"
  by (auto simp: allowed_def dot_def lower_def upper_def digit_def symbol_def py_str_def)

lemma list_ex_before_newline:
  assumes "list_all (allowed nd) s"
  shows "(\<exists>k<length s. p (s ! k) \<and> (\<forall>m<k. dot (s ! m))) \<longleftrightarrow> list_ex p s"
proof
  assume "\<exists>k<length s. p (s ! k) \<and> (\<forall>m<k. dot (s ! m))"
  then show "list_ex p s"
    by (auto simp: list_ex_iff)
next
  assume "list_ex p s"
  then obtain k where k: "k < length s" "p (s ! k)"
    by (auto simp: list_ex_iff in_set_conv_nth)
  have "dot (s ! m)" if "m < k" for m
  proof -
    from assms k(1) that have "allowed nd (s ! m)"
      by (simp add: list_all_length)
    then show ?thesis by (rule allowed_dot)
  qed
  with k show "\<exists>k<length s. p (s ! k) \<and> (\<forall>m<k. dot (s ! m))"
    by blast
qed

lemma body_no_trailing_newline:
  assumes "s = [] \<or> last s \<noteq> 10"
  shows "(\<exists>k. 8 \<le> k \<and> k \<le> length s \<and> (\<forall>m<k. allowed nd (s ! m)) \<and>
            (k = length s \<or> (Suc k = length s \<and> s ! k = 10)))
         \<longleftrightarrow> 8 \<le> length s \<and> list_all (allowed nd) s"
proof -
  have "\<not> (Suc k = length s \<and> s ! k = 10)" for k
  proof
    assume h: "Suc k = length s \<and> s ! k = 10"
    then have "s \<noteq> []" by auto
    then have "last s = s ! (length s - 1)" by (rule last_conv_nth)
    moreover from h have "length s - 1 = k" by arith
    ultimately have "last s = 10" using h by simp
    with \<open>s \<noteq> []\<close> assms show False by simp
  qed
  then show ?thesis
    by (auto simp: list_all_length)
qed

text \<open>
  C7, as the code has it. The claim reads: the predicate is true iff the secret has at
  least 8 characters, a digit, a lower-case letter, an upper-case letter and a symbol of
  the fixed set. The character class in front of \<open>{8,}\<close> also confines every character
  of the secret to these four kinds. For every secret, of any code points, that does
  not end in a line feed, the predicate is true iff the secret has at least 8
  characters, consists only of letters a-z and A-Z, decimal digits and symbols of the
  fixed set, and has at least one character of each of the four kinds. A digit is what
  \<open>\d\<close> holds: an ASCII digit or another Unicode decimal digit.
\<close>

theorem verify_password_charset:
  assumes "s = [] \<or> last s \<noteq> 10"
  shows "verify_password nd s \<longleftrightarrow> strong_secret nd s \<and> list_all (allowed nd) s"
proof (cases "list_all (allowed nd) s")
  case True
  then show ?thesis
    by (simp only: verify_password_iff body_no_trailing_newline [OF assms]
        list_ex_before_newline [OF True] strong_secret_def) blast
next
  case False
  then show ?thesis
    by (simp only: verify_password_iff body_no_trailing_newline [OF assms]) blast
qed

text \<open>
  The witness is \<open>Passw\<close>, ARABIC-INDIC DIGIT THREE, \<open>rd!\<close>: a secret whose only digit
  lies beyond ASCII.
\<close>

theorem verify_password_charset_witness:
  "verify_password example_nd (py_str ''Passw'' @ [1635] @ py_str ''rd!'') \<and>
   strong_secret example_nd (py_str ''Passw'' @ [1635] @ py_str ''rd!'') \<and>
   list_all (allowed example_nd) (py_str ''Passw'' @ [1635] @ py_str ''rd!'')"
proof -
  let ?s = "py_str ''Passw'' @ [1635] @ py_str ''rd!''"
  have h: "?s = [] \<or> last ?s \<noteq> 10"
    by (simp add: py_str_def)
  have "strong_secret example_nd ?s \<and> list_all (allowed example_nd) ?s"
    by (simp add: strong_secret_def allowed_def digit_def lower_def upper_def symbol_def
        example_nd_def py_str_def)
  with verify_password_charset [OF h] show ?thesis
    by simp
qed

text \<open>
  The claim C7 as it is stated fails: \<open>Passw0rd!-\<close> has ten characters, among them a
  digit, letters of both cases and the symbol \<open>!\<close>, and is refused for its \<open>-\<close>.
\<close>

theorem verify_password_rejects_strong_secret:
  "\<not> (verify_password example_nd (py_str ''Passw0rd!-'') \<longleftrightarrow>
      strong_secret example_nd (py_str ''Passw0rd!-''))"
  by (simp add: verify_password_def re_match_def pattern_def strong_secret_def allowed_def
      dot_def digit_def lower_def upper_def symbol_def example_nd_def py_str_def)

subsection \<open>Verify Credentials\<close>

lemmas store_defs =
  select_where_def fetchone_def new_rowid_def insert_account_def update_where_def commit_def
  sql_text_of_bool_def check_username_exits_def get_hex_sha_def

lemmas example_defs = example_library_def example_table_def admin_row_def student_row_def

lemma fetchone_filter: "fetchone (filter P xs) = find P xs"
  by (induction xs) (simp_all add: fetchone_def)

lemma verify_account_found:
  assumes "find (\<lambda>r. username r = u \<and> password r = get_hex_sha L pwd) (rows t) = Some r"
  shows "verify_account L u pwd t = (Inr r, t)"
  using assms by (simp add: verify_account_def select_where_def fetchone_filter)

lemma verify_account_wrong:
  assumes "find (\<lambda>r. username r = u \<and> password r = get_hex_sha L pwd) (rows t) = None"
    and "find (\<lambda>r. username r = u) (rows t) = Some r"
  shows "verify_account L u pwd t = (Inl PasswordError, t)"
  using assms by (simp add: verify_account_def select_where_def fetchone_filter)

lemma verify_account_unknown:
  assumes "find (\<lambda>r. username r = u) (rows t) = None"
  shows "verify_account L u pwd t = (Inl AccountError, t)"
proof -
  from assms have "find (\<lambda>r. username r = u \<and> password r = get_hex_sha L pwd) (rows t) = None"
    by (auto simp: find_None_iff)
  with assms show ?thesis
    by (simp add: verify_account_def select_where_def fetchone_filter)
qed

text \<open>
  C5: Verify Credentials tells three cases apart. If a stored row has the username and
  the hash of the secret, the call returns such a row in full. If some row has the
  username and no row with the username has the hash of the secret, it signals
  \<open>PasswordError\<close>. If no row has the username, it signals \<open>AccountError\<close>.
\<close>

theorem verify_account_three_way:
  "((\<exists>r\<in>set (rows t). username r = u \<and> password r = get_hex_sha L pwd) \<longrightarrow>
      (\<exists>r\<in>set (rows t). username r = u \<and> password r = get_hex_sha L pwd \<and>
         fst (verify_account L u pwd t) = Inr r)) \<and>
   ((\<exists>r\<in>set (rows t). username r = u) \<and>
    (\<forall>r\<in>set (rows t). username r = u \<longrightarrow> password r \<noteq> get_hex_sha L pwd) \<longrightarrow>
      fst (verify_account L u pwd t) = Inl PasswordError) \<and>
   ((\<forall>r\<in>set (rows t). username r \<noteq> u) \<longrightarrow>
      fst (verify_account L u pwd t) = Inl AccountError)"
proof (intro conjI impI)
  assume "\<exists>r\<in>set (rows t). username r = u \<and> password r = get_hex_sha L pwd"
  then have "find (\<lambda>r. username r = u \<and> password r = get_hex_sha L pwd) (rows t) \<noteq> None"
    by (auto simp: find_None_iff)
  then obtain r where r: "find (\<lambda>r. username r = u \<and> password r = get_hex_sha L pwd) (rows t) = Some r"
    by blast
  then have "r \<in> set (rows t)" "username r = u" "password r = get_hex_sha L pwd"
    by (auto simp: find_Some_iff)
  with verify_account_found [OF r]
  show "\<exists>r\<in>set (rows t). username r = u \<and> password r = get_hex_sha L pwd \<and>
         fst (verify_account L u pwd t) = Inr r"
    by auto
next
  assume h: "(\<exists>r\<in>set (rows t). username r = u) \<and>
    (\<forall>r\<in>set (rows t). username r = u \<longrightarrow> password r \<noteq> get_hex_sha L pwd)"
  then have "find (\<lambda>r. username r = u \<and> password r = get_hex_sha L pwd) (rows t) = None"
    by (auto simp: find_None_iff)
  moreover from h have "find (\<lambda>r. username r = u) (rows t) \<noteq> None"
    by (auto simp: find_None_iff)
  ultimately show "fst (verify_account L u pwd t) = Inl PasswordError"
    using verify_account_wrong by fastforce
next
  assume "\<forall>r\<in>set (rows t). username r \<noteq> u"
  then have "find (\<lambda>r. username r = u) (rows t) = None"
    by (auto simp: find_None_iff)
  then show "fst (verify_account L u pwd t) = Inl AccountError"
    by (simp add: verify_account_unknown)
qed

theorem verify_account_three_way_witness:
  "(\<exists>r\<in>set (rows example_table). username r = ''test_std'' \<and>
      password r = get_hex_sha example_library ''password'' \<and>
      fst (verify_account example_library ''test_std'' ''password'' example_table) = Inr r) \<and>
   fst (verify_account example_library ''test_std'' ''wrong'' example_table) = Inl PasswordError \<and>
   fst (verify_account example_library ''nobody'' ''password'' example_table) = Inl AccountError"
proof (intro conjI)
  have "\<exists>r\<in>set (rows example_table). username r = ''test_std'' \<and>
          password r = get_hex_sha example_library ''password''"
    by (simp add: example_defs get_hex_sha_def)
  then show "\<exists>r\<in>set (rows example_table). username r = ''test_std'' \<and>
      password r = get_hex_sha example_library ''password'' \<and>
      fst (verify_account example_library ''test_std'' ''password'' example_table) = Inr r"
    by (rule verify_account_three_way [THEN conjunct1, THEN mp])
next
  have "(\<exists>r\<in>set (rows example_table). username r = ''test_std'') \<and>
        (\<forall>r\<in>set (rows example_table). username r = ''test_std'' \<longrightarrow>
           password r \<noteq> get_hex_sha example_library ''wrong'')"
    by (simp add: example_defs get_hex_sha_def)
  then show "fst (verify_account example_library ''test_std'' ''wrong'' example_table) =
      Inl PasswordError"
    by (rule verify_account_three_way [THEN conjunct2, THEN conjunct1, THEN mp])
next
  have "\<forall>r\<in>set (rows example_table). username r \<noteq> ''nobody''"
    by (simp add: example_defs)
  then show "fst (verify_account example_library ''nobody'' ''password'' example_table) =
      Inl AccountError"
    by (rule verify_account_three_way [THEN conjunct2, THEN conjunct2, THEN mp])
qed

text \<open>
  C10: Verify Credentials never modifies the account table. Whatever the call returns
  or signals, the table after it is the table before it.
\<close>

theorem verify_account_reads_only: "snd (verify_account L u pwd t) = t"
  by (simp add: verify_account_def select_where_def Let_def split: option.splits)

subsection \<open>Bulk Account Creation\<close>

lemma check_account_table: "snd (check_account L a t) = t"
  by (cases a)
    (simp add: check_account_def check_username_exits_def select_where_def
      split: sum.splits prod.splits)

lemma check_accounts_table: "snd (check_accounts L as t) = t"
proof (induction as)
  case Nil
  then show ?case by simp
next
  case (Cons a as)
  have "snd (check_account L a t) = t" by (rule check_account_table)
  with Cons show ?case
    by (cases "check_account L a t") (auto split: option.splits)
qed

text \<open>The first loop stops at the first tuple that fails, with that tuple's error.\<close>

lemma check_accounts_first_failure:
  assumes "\<forall>c\<in>set pre. fst (check_account L c t) = None"
    and "fst (check_account L a t) = Some err"
  shows "fst (check_accounts L (pre @ a # post) t) = Some err"
  using assms
proof (induction pre)
  case Nil
  then show ?case
    by (cases "check_account L a t") simp
next
  case (Cons c pre)
  have "snd (check_account L c t) = t" by (rule check_account_table)
  moreover from Cons.prems have "fst (check_account L c t) = None" by simp
  ultimately have "check_account L c t = (None, t)"
    by (cases "check_account L c t") simp
  with Cons show ?case by simp
qed

lemma check_accounts_some_failure:
  assumes "a \<in> set as" and "fst (check_account L a t) \<noteq> None"
  shows "fst (check_accounts L as t) \<noteq> None"
  using assms
proof (induction as)
  case Nil
  then show ?case by simp
next
  case (Cons c as)
  have t: "snd (check_account L c t) = t" by (rule check_account_table)
  show ?case
  proof (cases "fst (check_account L c t)")
    case None
    with t have eq: "check_account L c t = (None, t)"
      by (cases "check_account L c t") simp
    from None Cons.prems have "a \<in> set as" by auto
    with Cons eq show ?thesis by simp
  next
    case (Some err)
    then show ?thesis
      by (cases "check_account L c t") simp
  qed
qed

text \<open>What the lookup and the check of one tuple decide, in terms of the stored rows.\<close>

lemma check_username_exits_iff:
  "fst (check_username_exits u t) \<longleftrightarrow> (\<exists>x\<in>set (rows t). username x = u)"
  by (auto simp: check_username_exits_def select_where_def filter_empty_conv)

lemma check_account_rejects:
  assumes "(\<exists>x\<in>set (rows t). username x = u) \<or>
           (\<exists>a b. strptime L s = Some a \<and> strptime L e = Some b \<and> b \<le> a)"
  shows "fst (check_account L (u, p, r, s, e) t) =
           Some (if \<exists>x\<in>set (rows t). username x = u then DuplicateValueError
                 else TimeSetError)"
proof (cases "\<exists>x\<in>set (rows t). username x = u")
  case True
  then have "fst (check_username_exits u t)"
    by (simp add: check_username_exits_iff)
  with True show ?thesis
    by (cases "check_username_exits u t") (simp add: check_account_def)
next
  case False
  then have "\<not> fst (check_username_exits u t)"
    by (simp add: check_username_exits_iff)
  moreover from False assms obtain a b
    where "strptime L s = Some a" "strptime L e = Some b" "b \<le> a"
    by blast
  ultimately show ?thesis
    using False by (cases "check_username_exits u t") (simp add: check_account_def verify_time_def)
qed

lemma check_account_passes:
  assumes "\<forall>x\<in>set (rows t). username x \<noteq> u"
    and "\<exists>a b. strptime L s = Some a \<and> strptime L e = Some b \<and> a < b"
  shows "fst (check_account L (u, p, r, s, e) t) = None"
proof -
  from assms(1) have "\<not> fst (check_username_exits u t)"
    by (simp add: check_username_exits_iff)
  with assms(2) show ?thesis
    by (auto simp: check_account_def verify_time_def split: prod.splits)
qed

text \<open>
  C6: a batch in which some tuple has a username that a stored row has, or a window
  whose end is not after its start, is refused as a whole: \<open>create_accounts\<close> signals an
  error and the table is as it was, so no tuple of the batch is stored, neither that
  one nor any other. When every tuple before that one has a username that no stored
  row has and a window that ends after it starts, the error is that tuple's own:
  \<open>DuplicateValueError\<close> if a stored row has its username, \<open>TimeSetError\<close> otherwise.
\<close>

theorem create_accounts_all_or_nothing:
  assumes "(u, p, r, s, e) \<in> set account_list"
    and "(\<exists>x\<in>set (rows t). username x = u) \<or>
         (\<exists>a b. strptime L s = Some a \<and> strptime L e = Some b \<and> b \<le> a)"
  shows "\<exists>err. create_accounts L account_list t = (Inl err, t) \<and>
           (\<forall>pre post. account_list = pre @ (u, p, r, s, e) # post \<and>
                (\<forall>(u', p', r', s', e')\<in>set pre.
                    (\<forall>x\<in>set (rows t). username x \<noteq> u') \<and>
                    (\<exists>a b. strptime L s' = Some a \<and> strptime L e' = Some b \<and> a < b)) \<longrightarrow>
              err = (if \<exists>x\<in>set (rows t). username x = u then DuplicateValueError
                     else TimeSetError))"
proof -
  let ?own = "if \<exists>x\<in>set (rows t). username x = u then DuplicateValueError else TimeSetError"
  have own: "fst (check_account L (u, p, r, s, e) t) = Some ?own"
    using assms(2) by (rule check_account_rejects)
  with assms(1) have "fst (check_accounts L account_list t) \<noteq> None"
    by (intro check_accounts_some_failure [of "(u, p, r, s, e)"]) simp_all
  then obtain err where err: "fst (check_accounts L account_list t) = Some err"
    by blast
  with check_accounts_table [of L account_list t]
  have "check_accounts L account_list t = (Some err, t)"
    by (cases "check_accounts L account_list t") simp
  then have res: "create_accounts L account_list t = (Inl err, t)"
    by (simp add: create_accounts_def)
  have "err = ?own"
    if split: "account_list = pre @ (u, p, r, s, e) # post"
      and ok: "\<forall>(u', p', r', s', e')\<in>set pre.
                 (\<forall>x\<in>set (rows t). username x \<noteq> u') \<and>
                 (\<exists>a b. strptime L s' = Some a \<and> strptime L e' = Some b \<and> a < b)"
    for pre post
  proof -
    have "\<forall>c\<in>set pre. fst (check_account L c t) = None"
    proof
      fix c assume c: "c \<in> set pre"
      obtain u' p' r' s' e' where eq: "c = (u', p', r', s', e')"
        by (cases c) auto
      from ok c eq have "\<forall>x\<in>set (rows t). username x \<noteq> u'"
        and "\<exists>a b. strptime L s' = Some a \<and> strptime L e' = Some b \<and> a < b"
        by auto
      then show "fst (check_account L c t) = None"
        unfolding eq by (rule check_account_passes)
    qed
    from check_accounts_first_failure [OF this own, of post] err split
    show ?thesis by simp
  qed
  with res show ?thesis by blast
qed

text \<open>
  Two batches on \<open>example_table\<close>, each with a tuple in front that would pass alone:
  the second tuple of \<open>stored_name_batch\<close> has the stored username \<open>test_std\<close>, the second
  tuple of \<open>backwards_batch\<close> a window that ends a month before it starts. Each batch is
  refused with the error of its second tuple, and the table is as it was.
\<close>

theorem create_accounts_all_or_nothing_witness:
  "create_accounts example_library stored_name_batch example_table =
     (Inl DuplicateValueError, example_table) \<and>
   create_accounts example_library backwards_batch example_table =
     (Inl TimeSetError, example_table)"
proof (intro conjI)
  let ?front = "(''test_teacher'', ''password'', ''teacher'', ''2023-04-17 00:00:00'',
                 ''2023-05-17 00:00:00'')"
  let ?a = "(''test_std'', ''X'', ''student'', ''2023-04-17 00:00:00'',
             ''2023-05-17 00:00:00'')"
  have m: "?a \<in> set stored_name_batch"
    by (simp add: stored_name_batch_def)
  have stored: "\<exists>x\<in>set (rows example_table). username x = ''test_std''"
    by (simp add: example_defs)
  then have b: "(\<exists>x\<in>set (rows example_table). username x = ''test_std'') \<or>
           (\<exists>a b. strptime example_library ''2023-04-17 00:00:00'' = Some a \<and>
                  strptime example_library ''2023-05-17 00:00:00'' = Some b \<and> b \<le> a)"
    by (rule disjI1)
  from create_accounts_all_or_nothing [OF m b] obtain err
    where 1: "create_accounts example_library stored_name_batch example_table =
                (Inl err, example_table)"
      and 2: "\<forall>pre post. stored_name_batch = pre @ ?a # post \<and>
                (\<forall>(u', p', r', s', e')\<in>set pre.
                    (\<forall>x\<in>set (rows example_table). username x \<noteq> u') \<and>
                    (\<exists>a b. strptime example_library s' = Some a \<and>
                           strptime example_library e' = Some b \<and> a < b)) \<longrightarrow>
                err = (if \<exists>x\<in>set (rows example_table). username x = ''test_std''
                       then DuplicateValueError else TimeSetError)"
    by blast
  have "stored_name_batch = [?front] @ ?a # [] \<and>
        (\<forall>(u', p', r', s', e')\<in>set [?front].
            (\<forall>x\<in>set (rows example_table). username x \<noteq> u') \<and>
            (\<exists>a b. strptime example_library s' = Some a \<and>
                   strptime example_library e' = Some b \<and> a < b))"
    by (simp add: stored_name_batch_def example_defs)
  with 2 have "err = (if \<exists>x\<in>set (rows example_table). username x = ''test_std''
                       then DuplicateValueError else TimeSetError)"
    by blast
  with stored have "err = DuplicateValueError"
    by (simp only: if_True)
  with 1 show "create_accounts example_library stored_name_batch example_table =
     (Inl DuplicateValueError, example_table)"
    by simp
next
  let ?front = "(''test_teacher'', ''password'', ''teacher'', ''2023-04-17 00:00:00'',
                 ''2023-05-17 00:00:00'')"
  let ?a = "(''late'', ''password'', ''student'', ''2023-05-17 00:00:00'',
             ''2023-04-17 00:00:00'')"
  let ?rear = "(''other'', ''password'', ''student'', ''2023-04-17 00:00:00'',
                ''2023-05-17 00:00:00'')"
  have m: "?a \<in> set backwards_batch"
    by (simp add: backwards_batch_def)
  have fresh: "\<not> (\<exists>x\<in>set (rows example_table). username x = ''late'')"
    by (simp add: example_defs)
  have b: "(\<exists>x\<in>set (rows example_table). username x = ''late'') \<or>
           (\<exists>a b. strptime example_library ''2023-05-17 00:00:00'' = Some a \<and>
                  strptime example_library ''2023-04-17 00:00:00'' = Some b \<and> b \<le> a)"
    by (simp add: example_library_def)
  from create_accounts_all_or_nothing [OF m b] obtain err
    where 1: "create_accounts example_library backwards_batch example_table =
                (Inl err, example_table)"
      and 2: "\<forall>pre post. backwards_batch = pre @ ?a # post \<and>
                (\<forall>(u', p', r', s', e')\<in>set pre.
                    (\<forall>x\<in>set (rows example_table). username x \<noteq> u') \<and>
                    (\<exists>a b. strptime example_library s' = Some a \<and>
                           strptime example_library e' = Some b \<and> a < b)) \<longrightarrow>
                err = (if \<exists>x\<in>set (rows example_table). username x = ''late''
                       then DuplicateValueError else TimeSetError)"
    by blast
  have "backwards_batch = [?front] @ ?a # [?rear] \<and>
        (\<forall>(u', p', r', s', e')\<in>set [?front].
            (\<forall>x\<in>set (rows example_table). username x \<noteq> u') \<and>
            (\<exists>a b. strptime example_library s' = Some a \<and>
                   strptime example_library e' = Some b \<and> a < b))"
    by (simp add: backwards_batch_def example_defs)
  with 2 have "err = (if \<exists>x\<in>set (rows example_table). username x = ''late''
                       then DuplicateValueError else TimeSetError)"
    by blast
  with fresh have "err = TimeSetError"
    by (simp only: if_False)
  with 1 show "create_accounts example_library backwards_batch example_table =
     (Inl TimeSetError, example_table)"
    by simp
qed

text \<open>
  C2 says that a batch in which a later tuple repeats the username of an earlier one is
  refused with a duplicate-value error and that nothing of it is stored. The first loop
  looks each username up in the table only, and the table does not change before the
  second loop: \<open>duplicate_batch\<close> passes, and both of its tuples are stored.
\<close>

theorem create_accounts_keeps_duplicate_batch:
  "create_accounts example_library duplicate_batch example_table =
     (Inr (), \<lparr>rows = [admin_row, student_row] @ duplicate_rows, sequence = 4\<rparr>)"
  by (simp add: create_accounts_def check_account_def verify_time_def duplicate_batch_def
      duplicate_rows_def store_defs example_defs)

text \<open>
  C8 says that after a tuple is stored, Verify Credentials with its username and any
  secret of another hash fails with a password error. After \<open>duplicate_batch\<close> the
  username \<open>dup\<close> is stored with the secret \<open>X\<close> and with the secret \<open>Y\<close>: for the tuple
  of \<open>X\<close>, the other secret \<open>Y\<close> has another hash and is accepted, with the row of the
  second tuple as the result.
\<close>

theorem verify_account_other_secret_accepted:
  "fst (verify_account example_library ''dup'' ''Y''
          (snd (create_accounts example_library duplicate_batch example_table)))
     = Inr (duplicate_rows ! 1) \<and>
   get_hex_sha example_library ''Y'' \<noteq> get_hex_sha example_library ''X''"
  by (simp add: verify_account_def create_accounts_def check_account_def verify_time_def
      duplicate_batch_def duplicate_rows_def store_defs example_defs Let_def)

subsection \<open>Store initialization\<close>

lemma init_admin_keeps:
  assumes "\<exists>r\<in>set (rows t). role r = ''admin''"
  shows "init_admin_if_not_exits L k t = t"
proof -
  from assms have "filter (\<lambda>r. role r = ''admin'') (rows t) \<noteq> []"
    by (simp add: filter_empty_conv)
  then show ?thesis
    by (simp add: init_admin_if_not_exits_def select_where_def)
qed

lemma init_admin_count:
  "length (filter (\<lambda>r. role r = ''admin'') (rows (init_admin_if_not_exits L k t))) =
     max 1 (length (filter (\<lambda>r. role r = ''admin'') (rows t)))"
  by (auto simp: init_admin_if_not_exits_def select_where_def insert_account_def commit_def
      Let_def max_def not_less_eq_eq)

lemma init_admin_has_admin:
  "\<exists>r\<in>set (rows (init_admin_if_not_exits L k t)). role r = ''admin''"
proof -
  have "filter (\<lambda>r. role r = ''admin'') (rows (init_admin_if_not_exits L k t)) \<noteq> []"
    using init_admin_count [of L k t] by (metis length_0_conv max_nat.eq_neutr_iff zero_neq_one)
  then show ?thesis
    by (simp add: filter_empty_conv)
qed

text \<open>
  C9: initializing a brand-new store twice in a row leaves exactly one row of role
  \<open>admin\<close>; a second initialization changes nothing, whatever the store was at first;
  and the administrator is synthesized only when no row of role \<open>admin\<close> exists: on a
  table that has one, initialization changes nothing.
\<close>

theorem init_twice_one_admin:
  "length (filter (\<lambda>r. role r = ''admin'')
      (rows (AccountSQL_init L k2 (Some (AccountSQL_init L k1 None))))) = 1 \<and>
   AccountSQL_init L k2 (Some (AccountSQL_init L k1 db)) = AccountSQL_init L k1 db \<and>
   ((\<exists>r\<in>set (rows t). role r = ''admin'') \<longrightarrow> AccountSQL_init L k (Some t) = t)"
proof (intro conjI impI)
  have idem: "AccountSQL_init L k2 (Some (AccountSQL_init L k1 db)) = AccountSQL_init L k1 db"
    for db
    unfolding AccountSQL_init_def
    by (simp add: create_table_if_not_exits_def init_admin_keeps [OF init_admin_has_admin])
  show "AccountSQL_init L k2 (Some (AccountSQL_init L k1 db)) = AccountSQL_init L k1 db"
    by (rule idem)
  have "length (filter (\<lambda>r. role r = ''admin'') (rows (AccountSQL_init L k1 None))) = 1"
    unfolding AccountSQL_init_def
    by (simp add: init_admin_count create_table_if_not_exits_def)
  then show "length (filter (\<lambda>r. role r = ''admin'')
      (rows (AccountSQL_init L k2 (Some (AccountSQL_init L k1 None))))) = 1"
    by (simp only: idem)
next
  assume "\<exists>r\<in>set (rows t). role r = ''admin''"
  then show "AccountSQL_init L k (Some t) = t"
    by (simp add: AccountSQL_init_def create_table_if_not_exits_def init_admin_keeps)
qed

theorem init_twice_one_admin_witness:
  "(\<exists>r\<in>set (rows example_table). role r = ''admin'') \<and>
   AccountSQL_init example_library ''aB3!aB3!aB3!aB3'' (Some example_table) = example_table"
proof -
  have h: "\<exists>r\<in>set (rows example_table). role r = ''admin''"
    by (simp add: example_defs)
  with init_twice_one_admin [of example_library "''aB3!aB3!aB3!aB3''" "''aB3!aB3!aB3!aB3''" None
      example_table "''aB3!aB3!aB3!aB3''"]
  show ?thesis by blast
qed

subsection \<open>Change Password, Update Allow-Window, Fetch Base Info\<close>

text \<open>
  C1 says that Change Password answers a wrong current secret, as it answers an unknown
  account, with a plain \<open>False\<close>. The \<open>except\<close> clause catches \<open>AccountError\<close> alone: for
  the stored account \<open>test_std\<close> and a wrong current secret the \<open>PasswordError\<close> of
  Verify Credentials reaches the caller. The table is as it was.
\<close>

theorem change_password_wrong_secret_raises:
  "change_password example_library ''test_std'' ''wrong'' ''new_password'' example_table
     = (Inl PasswordError, example_table)"
  by (simp add: change_password_def verify_account_def caught_def store_defs example_defs)

text \<open>
  C3 says that Update Allow-Window, for a stored username and a window that ends after
  it starts, overwrites start\_time and end\_time with the values given. For \<open>test_std\<close>
  and the window from 2024-01-01 to 2025-01-01 the call succeeds, start\_time becomes
  the text \<open>0\<close> and end\_time stays 2023-05-17.
\<close>

theorem update_allow_time_overwrites_neither:
  "update_allow_time example_library ''test_std'' ''2024-01-01 00:00:00''
       ''2025-01-01 00:00:00'' example_table
     = (Inr (), \<lparr>rows = [admin_row, student_row\<lparr>start_time := ''0''\<rparr>], sequence = 2\<rparr>)"
  by (simp add: update_allow_time_def verify_time_def store_defs example_defs)

text \<open>
  C4 says that Fetch Base Info returns the identifier, role, start time and end time of
  the account. For \<open>test_std\<close> it returns the identifier, the username, the role and the
  start time: every column after the first is the one before the column promised, and
  the end time is not returned.
\<close>

theorem username_get_base_info_shifted:
  "username_get_base_info ''test_std'' example_table
     = (Inr (2, ''test_std'', ''student'', ''2023-04-17 00:00:00''), example_table)"
  by (simp add: username_get_base_info_def store_defs example_defs)

end
